theory Spec2Isabelle
  imports Complex_Main
begin

section \<open>Python values\<close>

text \<open>
  Identifiers and database fields are dynamically typed in the source: a game id is
  an integer of the games table, a string, or None.
\<close>

datatype pyval = PNone | PBool bool | PInt int | PStr string

datatype error =
  RuntimeError | AttributeError | TypeError | KeyError | GError | ZeroDivisionError

text \<open>Decimal printing of Python's \<^verbatim>\<open>str\<close> on integers.\<close>

fun str_nat :: "nat \<Rightarrow> string" where
  "str_nat n = (if n < 10 then [''0123456789'' ! n]
                else str_nat (n div 10) @ [''0123456789'' ! (n mod 10)])"

declare str_nat.simps [simp del]

definition str_int :: "int \<Rightarrow> string" where
  "str_int i = (if i < 0 then CHR ''-'' # str_nat (nat (- i)) else str_nat (nat i))"

fun str :: "pyval \<Rightarrow> string" where
  "str PNone = ''None''"
| "str (PBool b) = (if b then ''True'' else ''False'')"
| "str (PInt i) = str_int i"
| "str (PStr s) = s"

text \<open>Truthiness of an optional string: None and the empty string are false.\<close>

fun truthy :: "string option \<Rightarrow> bool" where
  "truthy None = False"
| "truthy (Some s) = (s \<noteq> [])"

text \<open>\<^verbatim>\<open>os.path.basename\<close>: what follows the last slash.\<close>

definition basename :: "string \<Rightarrow> string" where
  "basename p = rev (takeWhile (\<lambda>c. c \<noteq> CHR ''/'') (rev p))"

text \<open>\<^verbatim>\<open>os.path.join\<close> of two components.\<close>

definition os_path_join :: "string \<Rightarrow> string \<Rightarrow> string" where
  "os_path_join a b =
     (if b \<noteq> [] \<and> hd b = CHR ''/'' then b
      else if a = [] \<or> last a = CHR ''/'' then a @ b
      else a @ ''/'' @ b)"

section \<open>The game model as the actions see it\<close>

text \<open>
  The class Game is not part of the sources at hand; GameActions reads the attributes
  below. \<open>browse_dir\<close> is what \<^verbatim>\<open>get_browse_dir()\<close> returns, \<open>id_attr\<close> is the
  attribute \<^verbatim>\<open>id\<close>.
\<close>

record runner =
  system_config :: "string \<rightharpoonup> string"

record game =
  id_attr :: pyval
  slug :: string
  name :: string
  runner_name :: string
  directory :: string
  game_config_id :: string
  is_installed :: bool
  is_updatable :: bool
  is_favorite :: bool
  is_hidden :: bool
  service :: "string option"
  runner :: "runner option"
  log_buffer :: "string option"
  browse_dir :: "string option"

datatype response_type = YES | NO | DELETE_EVENT

datatype arg = AVal pyval | AStr string | AIds "pyval list" | AGame game

text \<open>
  Every call that leaves the two modules is recorded, in order, with its arguments.
  Translated messages are kept as the template and its arguments.
\<close>

datatype event =
    GameLaunch
  | GameForceStop
  | GameEmit string
  | GameAddToFavorites
  | GameRemoveFromFavorites
  | GameSetHidden bool
  | GameSave pyval
  | LoggerWarning string "arg list"
  | LoggerInfo string "arg list"
  | LoggerError string "arg list"
  | LogWindow string game "string option"
  | AddGameDialog game string
  | QuestionDialog string string string
  | NoticeDialog string "arg list"
  | ShowWindowEditGameConfigDialog game
  | UninstallGameDialog pyval
  | RemoveGameDialog pyval
  | MonitoredCommandStart "string list" "string list" string
  | SystemExecute "string list"
  | XdgCreateLauncher string pyval string bool bool
  | XdgRemoveLauncher string pyval bool bool
  | SteamCreateShortcut game
  | SteamRemoveShortcut game
  | DuplicateGameConfig string string
  | AddGame "string \<rightharpoonup> pyval"

text \<open>
  The state a callback runs in: the GameActions object after \<^verbatim>\<open>set_game(game)\<close>, so
  that the property \<^verbatim>\<open>self.game\<close> is that game and \<^verbatim>\<open>self.game_id\<close> its id, together
  with the answers of the code outside the two modules (the application, xdgshortcuts,
  the Steam shortcut module, the file system, the games database, the user's answer to
  a question dialog, the pixbuf loader), which are parameters, and the trace of calls.
  \<open>XdgCreateLauncher\<close> and \<open>XdgRemoveLauncher\<close> end with the keyword arguments
  \<^verbatim>\<open>desktop\<close> and \<^verbatim>\<open>menu\<close>.
\<close>

record world =
  game :: game
  gettext :: "string \<Rightarrow> string"
  gtk_safe :: "string \<Rightarrow> string"
  application_get_game_by_id :: "pyval \<Rightarrow> game option"
  application_get_running_game_ids :: "pyval list"
  desktop_launcher_exists :: "string \<Rightarrow> pyval \<Rightarrow> bool"
  menu_launcher_exists :: "string \<Rightarrow> pyval \<Rightarrow> bool"
  shortcut_exists :: "game \<Rightarrow> bool"
  is_steam_game :: "game \<Rightarrow> bool"
  path_exists :: "string option \<Rightarrow> bool \<Rightarrow> bool"
  question_dialog_result :: response_type
  get_unusued_game_name :: "string \<Rightarrow> string"
  duplicate_game_config :: "string \<Rightarrow> string \<Rightarrow> string"
  get_game_by_field :: "pyval \<Rightarrow> string \<Rightarrow> (string \<rightharpoonup> pyval)"
  add_game :: "(string \<rightharpoonup> pyval) \<Rightarrow> pyval"
  datapath_get :: string
  pixbuf_loads :: "string \<Rightarrow> bool"
  events :: "event list"

definition emit :: "event \<Rightarrow> world \<Rightarrow> world" where
  "emit e w = w\<lparr>events := events w @ [e]\<rparr>"

section \<open>GameActions: visibility of the entries\<close>

definition is_game_running :: "world \<Rightarrow> bool" where
  "is_game_running w = (application_get_game_by_id w (id_attr (game w)) \<noteq> None)"

text \<open>\<^verbatim>\<open>runner.system_config.get("manual_command")\<close>, for a runner that is there.\<close>

definition manual_command :: "runner \<Rightarrow> string option" where
  "manual_command r = system_config r ''manual_command''"

definition has_manual_command :: "game \<Rightarrow> bool" where
  "has_manual_command g = (case runner g of None \<Rightarrow> False | Some r \<Rightarrow> truthy (manual_command r))"

text \<open>The dictionary literal, as its items in the order they are written.\<close>

definition get_displayed_entries :: "world \<Rightarrow> (string \<times> bool) list" where
  "get_displayed_entries w = (let g = game w in
    [ (''add'', \<not> is_installed g),
      (''duplicate'', True),
      (''install'', \<not> is_installed g),
      (''play'', is_installed g \<and> \<not> is_game_running w),
      (''update'', is_updatable g),
      (''install_dlcs'', is_updatable g),
      (''stop'', is_game_running w),
      (''configure'', is_installed g),
      (''browse'', is_installed g \<and> runner_name g \<noteq> ''browser''),
      (''show_logs'', is_installed g),
      (''favorite'', \<not> is_favorite g),
      (''deletefavorite'', is_favorite g),
      (''install_more'', \<not> truthy (service g) \<and> is_installed g),
      (''execute-script'', is_installed g \<and> has_manual_command g),
      (''desktop-shortcut'',
         is_installed g \<and> \<not> desktop_launcher_exists w (slug g) (id_attr g)),
      (''menu-shortcut'',
         is_installed g \<and> \<not> menu_launcher_exists w (slug g) (id_attr g)),
      (''steam-shortcut'',
         is_installed g \<and> \<not> shortcut_exists w g \<and> \<not> is_steam_game w g),
      (''rm-desktop-shortcut'',
         is_installed g \<and> desktop_launcher_exists w (slug g) (id_attr g)),
      (''rm-menu-shortcut'',
         is_installed g \<and> menu_launcher_exists w (slug g) (id_attr g)),
      (''rm-steam-shortcut'',
         is_installed g \<and> shortcut_exists w g \<and> \<not> is_steam_game w g),
      (''remove'', True),
      (''view'', True),
      (''hide'', is_installed g \<and> \<not> is_hidden g),
      (''unhide'', is_hidden g) ])"

text \<open>An entry is shown when the dictionary maps its name to True.\<close>

definition shown :: "world \<Rightarrow> string \<Rightarrow> bool" where
  "shown w k = (map_of (get_displayed_entries w) k = Some True)"

section \<open>The Game methods the callbacks call\<close>

text \<open>
  Modelled from the spec: the methods \<^verbatim>\<open>add_to_favorites\<close>, \<^verbatim>\<open>remove_from_favorites\<close>
  and \<^verbatim>\<open>set_hidden\<close> of the class Game are missing from the sources. The spec describes
  a Game record with boolean flags (installed, favorite, hidden) that is mutated outside
  the excerpt, and the callbacks' docstrings say that they add the game to, or remove it
  from, the favorites and the hidden games: the methods set the flag and are recorded
  as calls.
\<close>

definition add_to_favorites :: "world \<Rightarrow> world" where
  "add_to_favorites w = emit GameAddToFavorites (w\<lparr>game := (game w)\<lparr>is_favorite := True\<rparr>\<rparr>)"

definition remove_from_favorites :: "world \<Rightarrow> world" where
  "remove_from_favorites w =
     emit GameRemoveFromFavorites (w\<lparr>game := (game w)\<lparr>is_favorite := False\<rparr>\<rparr>)"

definition set_hidden :: "bool \<Rightarrow> world \<Rightarrow> world" where
  "set_hidden b w = emit (GameSetHidden b) (w\<lparr>game := (game w)\<lparr>is_hidden := b\<rparr>\<rparr>)"

section \<open>gui/widgets/utils.py: opening a URI\<close>

definition open_uri :: "string \<Rightarrow> world \<Rightarrow> world" where
  "open_uri uri w = emit (SystemExecute [''xdg-open'', uri]) w"

section \<open>GameActions: the callbacks\<close>

text \<open>
  A callback returns the exception it raises to its caller, if any, and the state it
  leaves.
\<close>

type_synonym callback = "world \<Rightarrow> error option \<times> world"

definition on_game_launch :: callback where
  "on_game_launch w = (None, emit GameLaunch w)"

fun in_running_ids :: "pyval list \<Rightarrow> pyval \<Rightarrow> bool" where
  "in_running_ids [] gid = False"
| "in_running_ids (game_id # ids) gid =
     (if str game_id = str gid then True else in_running_ids ids gid)"

definition get_running_game :: "world \<Rightarrow> game option \<times> world" where
  "get_running_game w =
     (let ids = application_get_running_game_ids w in
      if in_running_ids ids (id_attr (game w)) then (Some (game w), w)
      else (None, emit (LoggerWarning ''Game %s not in %s''
                          [AVal (id_attr (game w)), AIds ids]) w))"

definition on_game_stop :: callback where
  "on_game_stop w =
     (case get_running_game w of
        (Some g, w1) \<Rightarrow> (None, emit GameForceStop w1)
      | (None, w1) \<Rightarrow> (None, w1))"

definition on_show_logs :: callback where
  "on_show_logs w =
     (let buffer = log_buffer (game w);
          w1 = (if \<not> truthy buffer
                then emit (LoggerInfo ''No log for game %s'' [AGame (game w)]) w else w)
      in (None, emit (LogWindow (gettext w ''Log for {}'') (game w) buffer) w1))"

definition on_install_clicked :: callback where
  "on_install_clicked w =
     (if slug (game w) = [] then (Some RuntimeError, w)
      else (None, emit (GameEmit ''game-install'') w))"

definition on_update_clicked :: callback where
  "on_update_clicked w = (None, emit (GameEmit ''game-install-update'') w)"

definition on_install_dlc_clicked :: callback where
  "on_install_dlc_clicked w = (None, emit (GameEmit ''game-install-dlc'') w)"

definition on_add_manually :: callback where
  "on_add_manually w = (None, emit (AddGameDialog (game w) (runner_name (game w))) w)"

text \<open>
  The dictionary edits of \<^verbatim>\<open>on_game_duplicate\<close> on the record the database returned:
  \<^verbatim>\<open>pop("id")\<close> raises KeyError on a dictionary without that key, the two other pops
  have a default.
\<close>

definition duplicate_fields ::
  "(string \<rightharpoonup> pyval) \<Rightarrow> string \<Rightarrow> pyval \<Rightarrow> error + (string \<rightharpoonup> pyval)" where
  "duplicate_fields db_game assigned_name new_config_id =
     (let d1 = db_game(''name'' \<mapsto> PStr assigned_name);
          d2 = d1(''configpath'' \<mapsto> new_config_id)
      in if d2 ''id'' = None then Inl KeyError
         else Inr (d2(''id'' := None, ''service'' := None, ''service_id'' := None)))"

definition on_game_duplicate :: callback where
  "on_game_duplicate w =
     (let g = game w;
          w1 = emit (QuestionDialog
                 (gettext w (''Do you wish to duplicate %s?'' @ [CHR 0x0A]
                    @ ''The configuration will be duplicated, ''
                    @ ''but the games files will <b>not be duplicated</b>.''))
                 (gtk_safe w (name g))
                 (gettext w ''Duplicate game?'')) w
      in if question_dialog_result w \<noteq> YES then (None, w1)
         else
           let assigned_name = get_unusued_game_name w (name g);
               old_config_id = game_config_id g;
               (new_config_id, w2) =
                 (if old_config_id \<noteq> []
                  then (PStr (duplicate_game_config w (slug g) old_config_id),
                        emit (DuplicateGameConfig (slug g) old_config_id) w1)
                  else (PNone, w1));
               db_game = get_game_by_field w (id_attr g) ''id''
           in case duplicate_fields db_game assigned_name new_config_id of
                Inl e \<Rightarrow> (Some e, w2)
              | Inr new_fields \<Rightarrow>
                  (let game_id = add_game w new_fields;
                       w3 = emit (AddGame new_fields) w2
                   in (None, emit (GameSave game_id) w3)))"

definition on_edit_game_configuration :: callback where
  "on_edit_game_configuration w = (None, emit (ShowWindowEditGameConfigDialog (game w)) w)"

definition on_add_favorite_game :: callback where
  "on_add_favorite_game w = (None, add_to_favorites w)"

definition on_delete_favorite_game :: callback where
  "on_delete_favorite_game w = (None, remove_from_favorites w)"

definition on_hide_game :: callback where
  "on_hide_game w = (None, set_hidden True w)"

definition on_unhide_game :: callback where
  "on_unhide_game w = (None, set_hidden False w)"

definition on_execute_script_clicked :: callback where
  "on_execute_script_clicked w =
     (case runner (game w) of
        None \<Rightarrow> (Some AttributeError, w)
      | Some r \<Rightarrow>
          (if path_exists w (manual_command r) False
           then (case manual_command r of
                   None \<Rightarrow> (Some TypeError, w)
                 | Some cmd \<Rightarrow>
                     (None,
                      emit (LoggerInfo ''Running %s in the background'' [AStr cmd])
                        (emit (MonitoredCommandStart [cmd] [basename cmd]
                                 (directory (game w))) w)))
           else (None, w)))"

definition on_browse_files :: callback where
  "on_browse_files w =
     (case browse_dir (game w) of
        None \<Rightarrow>
          (None, emit (NoticeDialog (gettext w ''This game has no installation directory'') []) w)
      | Some path \<Rightarrow>
          if path = [] then
            (None, emit (NoticeDialog (gettext w ''This game has no installation directory'') []) w)
          else if path_exists w (Some path) False then (None, open_uri (''file://'' @ path) w)
          else (None, emit (NoticeDialog
                  (gettext w (''Can't open %s '' @ [CHR 0x0A] @ ''The folder doesn't exist.''))
                  [AStr path]) w))"

definition on_create_menu_shortcut :: callback where
  "on_create_menu_shortcut w =
     (let g = game w in (None, emit (XdgCreateLauncher (slug g) (id_attr g) (name g) False True) w))"

definition on_create_steam_shortcut :: callback where
  "on_create_steam_shortcut w = (None, emit (SteamCreateShortcut (game w)) w)"

definition on_create_desktop_shortcut :: callback where
  "on_create_desktop_shortcut w =
     (let g = game w in (None, emit (XdgCreateLauncher (slug g) (id_attr g) (name g) True False) w))"

definition on_remove_menu_shortcut :: callback where
  "on_remove_menu_shortcut w =
     (let g = game w in (None, emit (XdgRemoveLauncher (slug g) (id_attr g) False True) w))"

definition on_remove_steam_shortcut :: callback where
  "on_remove_steam_shortcut w = (None, emit (SteamRemoveShortcut (game w)) w)"

definition on_remove_desktop_shortcut :: callback where
  "on_remove_desktop_shortcut w =
     (let g = game w in (None, emit (XdgRemoveLauncher (slug g) (id_attr g) True False) w))"

definition on_view_game :: callback where
  "on_view_game w = (None, open_uri (''https://lutris.net/games/'' @ slug (game w)) w)"

definition on_remove_game :: callback where
  "on_remove_game w =
     (if is_installed (game w) then (None, emit (UninstallGameDialog (id_attr (game w))) w)
      else (None, emit (RemoveGameDialog (id_attr (game w))) w))"

section \<open>GameActions: the table of actions\<close>

definition get_game_actions :: "world \<Rightarrow> (string \<times> string \<times> callback) list" where
  "get_game_actions w = (let tr = gettext w in
    [ (''play'', tr ''Play'', on_game_launch),
      (''stop'', tr ''Stop'', on_game_stop),
      (''install'', tr ''Install'', on_install_clicked),
      (''update'', tr ''Install updates'', on_update_clicked),
      (''install_dlcs'', ''Install DLCs'', on_install_dlc_clicked),
      (''show_logs'', tr ''Show logs'', on_show_logs),
      (''add'', tr ''Add installed game'', on_add_manually),
      (''duplicate'', tr ''Duplicate'', on_game_duplicate),
      (''configure'', tr ''Configure'', on_edit_game_configuration),
      (''favorite'', tr ''Add to favorites'', on_add_favorite_game),
      (''deletefavorite'', tr ''Remove from favorites'', on_delete_favorite_game),
      (''execute-script'', tr ''Execute script'', on_execute_script_clicked),
      (''browse'', tr ''Browse files'', on_browse_files),
      (''desktop-shortcut'', tr ''Create desktop shortcut'', on_create_desktop_shortcut),
      (''rm-desktop-shortcut'', tr ''Delete desktop shortcut'', on_remove_desktop_shortcut),
      (''menu-shortcut'', tr ''Create application menu shortcut'', on_create_menu_shortcut),
      (''rm-menu-shortcut'', tr ''Delete application menu shortcut'', on_remove_menu_shortcut),
      (''steam-shortcut'', tr ''Create steam shortcut'', on_create_steam_shortcut),
      (''rm-steam-shortcut'', tr ''Delete steam shortcut'', on_remove_steam_shortcut),
      (''install_more'', tr ''Install another version'', on_install_clicked),
      (''remove'', tr ''Remove'', on_remove_game),
      (''view'', tr ''View on Lutris.net'', on_view_game),
      (''hide'', tr ''Hide game from library'', on_hide_game),
      (''unhide'', tr ''Unhide game from library'', on_unhide_game) ])"

text \<open>The names of the table, and the handler the table holds under a name.\<close>

definition action_names :: "world \<Rightarrow> string list" where
  "action_names w = map fst (get_game_actions w)"

definition handler :: "world \<Rightarrow> string \<Rightarrow> callback option" where
  "handler w k = map_of (map (\<lambda>(n, l, cb). (n, cb)) (get_game_actions w)) k"

text \<open>Running the handler of an action in a state; None for a name the table lacks.\<close>

definition run_action :: "string \<Rightarrow> world \<Rightarrow> (error option \<times> world) option" where
  "run_action k w = (case handler w k of None \<Rightarrow> None | Some cb \<Rightarrow> Some (cb w))"

section \<open>gui/widgets/utils.py: pixbufs\<close>

text \<open>
  GdkPixbuf is a library outside the repository. A pixbuf is the term of the calls that
  built it: \<open>NewFromFileAtSize\<close> loads a file to fit a width and height,
  \<open>ScaleSimple\<close> scales to exactly a width and height, \<open>Composite src dest w h\<close> is
  \<open>dest\<close> after \<^verbatim>\<open>src.composite(dest, 0, 0, w, h, 0, 0, 1, 1, NEAREST, 100)\<close>.
  Loading raises GLib.GError for the files the loader cannot read (\<open>pixbuf_loads\<close>).
\<close>

datatype pixbuf =
    NewFromFileAtSize string int int
  | ScaleSimple pixbuf int int
  | Copy pixbuf
  | Composite pixbuf pixbuf int int

definition new_from_file_at_size :: "world \<Rightarrow> string \<Rightarrow> int \<Rightarrow> int \<Rightarrow> error + pixbuf" where
  "new_from_file_at_size w path width height =
     (if pixbuf_loads w path then Inr (NewFromFileAtSize path width height) else Inl GError)"

definition get_overlay :: "world \<Rightarrow> string \<Rightarrow> int \<times> int \<Rightarrow> error + pixbuf" where
  "get_overlay w overlay_path size_wh =
     (let width = fst size_wh; height = snd size_wh in
      case new_from_file_at_size w overlay_path width height of
        Inl e \<Rightarrow> Inl e
      | Inr transparent_pixbuf \<Rightarrow> Inr (ScaleSimple transparent_pixbuf width height))"

definition get_default_icon :: "world \<Rightarrow> int \<times> int \<Rightarrow> string" where
  "get_default_icon w size_wh =
     (if fst size_wh = snd size_wh then os_path_join (datapath_get w) ''media/default_icon.png''
      else os_path_join (datapath_get w) ''media/default_banner.png'')"

text \<open>\<^verbatim>\<open>if not fallback: fallback = get_default_icon(size)\<close>\<close>

definition fallback_or_default :: "world \<Rightarrow> int \<times> int \<Rightarrow> string option \<Rightarrow> string" where
  "fallback_or_default w size_wh fallback =
     (case fallback of
        None \<Rightarrow> get_default_icon w size_wh
      | Some f \<Rightarrow> if f = [] then get_default_icon w size_wh else f)"

text \<open>
  The first half of \<^verbatim>\<open>get_pixbuf\<close>: the pixbuf loaded from the image or from the
  fallback, None when there is none; a GError of the image is caught and logged, one
  of the fallback is not caught.
\<close>

definition load_pixbuf ::
  "world \<Rightarrow> string \<Rightarrow> int \<times> int \<Rightarrow> string option \<Rightarrow> (error + pixbuf option) \<times> world" where
  "load_pixbuf w image_path size_wh fallback =
     (let width = fst size_wh; height = snd size_wh in
      if path_exists w (Some image_path) True then
        (case new_from_file_at_size w image_path width height of
           Inr pixbuf \<Rightarrow> (Inr (Some (ScaleSimple pixbuf width height)), w)
         | Inl e \<Rightarrow>
             (Inr None, emit (LoggerError ''Unable to load icon from image %s'' [AStr image_path]) w))
      else
        (let fallback1 = fallback_or_default w size_wh fallback in
         if path_exists w (Some fallback1) False then
           (case new_from_file_at_size w fallback1 width height of
              Inr pixbuf \<Rightarrow> (Inr (Some pixbuf), w)
            | Inl e \<Rightarrow> (Inl e, w))
         else (Inr None, w)))"

definition get_pixbuf ::
  "world \<Rightarrow> string \<Rightarrow> int \<times> int \<Rightarrow> string option \<Rightarrow> bool \<Rightarrow> (error + pixbuf) \<times> world" where
  "get_pixbuf w image_path size_wh fallback is_installed1 =
     (let width = fst size_wh; height = snd size_wh in
      case load_pixbuf w image_path size_wh fallback of
        (Inl e, w1) \<Rightarrow> (Inl e, w1)
      | (Inr pixbuf, w1) \<Rightarrow>
          (case (is_installed1, pixbuf) of
             (True, Some p) \<Rightarrow> (Inr (ScaleSimple p width height), w1)
           | _ \<Rightarrow>
              (let overlay = os_path_join (datapath_get w1) ''media/unavailable.png'' in
               case get_overlay w1 overlay size_wh of
                 Inl e \<Rightarrow> (Inl e, w1)
               | Inr ov \<Rightarrow>
                   (let transparent_pixbuf = Copy ov in
                    case pixbuf of
                      None \<Rightarrow> (Inr transparent_pixbuf, w1)
                    | Some p \<Rightarrow>
                        (Inr (Composite p transparent_pixbuf (fst size_wh) (snd size_wh)), w1)))))"

text \<open>The files a pixbuf was built from, and whether a pixbuf is a composite.\<close>

fun pixbuf_files :: "pixbuf \<Rightarrow> string list" where
  "pixbuf_files (NewFromFileAtSize path w h) = [path]"
| "pixbuf_files (ScaleSimple p w h) = pixbuf_files p"
| "pixbuf_files (Copy p) = pixbuf_files p"
| "pixbuf_files (Composite src dest w h) = pixbuf_files src @ pixbuf_files dest"

section \<open>Python floats\<close>

text \<open>
  A Python float is an IEEE 754 double: a rational with a significand of 53 bits. An
  operation on floats returns the exact result rounded to the nearest double, to the
  even significand on a tie. \<open>round_double\<close> is that rounding, for the magnitudes
  between the smallest normal and the largest double (pixel sizes and their ratios are
  far inside): \<open>exponent q\<close> is the \<open>e\<close> with \<open>2 ^ e \<le> q < 2 ^ (e + 1)\<close>, for
  \<open>q > 0\<close>.
\<close>

fun bit_length :: "nat \<Rightarrow> nat" where
  "bit_length n = (if n = 0 then 0 else Suc (bit_length (n div 2)))"

declare bit_length.simps [simp del]

definition pow2 :: "int \<Rightarrow> rat" where
  "pow2 e = (if 0 \<le> e then 2 ^ nat e else 1 / 2 ^ nat (- e))"

definition round_half_even :: "rat \<Rightarrow> int" where
  "round_half_even x =
     (let f = \<lfloor>x\<rfloor>; d = x - of_int f in
      if d < 1 / 2 then f
      else if 1 / 2 < d then f + 1
      else if even f then f else f + 1)"

definition exponent :: "rat \<Rightarrow> int" where
  "exponent q =
     (let k = (if 1 \<le> q then int (bit_length (nat \<lfloor>q\<rfloor>)) - 1
               else - int (bit_length (nat \<lfloor>1 / q\<rfloor>)))
      in if pow2 (k + 1) \<le> q then k + 1 else k)"

definition round_double :: "rat \<Rightarrow> rat" where
  "round_double q =
     (if q = 0 then 0
      else let e = exponent \<bar>q\<bar>;
               m = round_half_even (\<bar>q\<bar> * pow2 (52 - e))
           in sgn q * of_int m * pow2 (e - 52))"

text \<open>
  \<^verbatim>\<open>a / b\<close> on two ints (the quotient, rounded once; ZeroDivisionError for a zero
  divisor), \<^verbatim>\<open>a * x\<close> on an int and a float (the int is converted first), and
  \<^verbatim>\<open>int(x)\<close>, which truncates towards zero.
\<close>

definition true_div :: "int \<Rightarrow> int \<Rightarrow> error + rat" where
  "true_div a b =
     (if b = 0 then Inl ZeroDivisionError else Inr (round_double (of_int a / of_int b)))"

definition int_times_float :: "int \<Rightarrow> rat \<Rightarrow> rat" where
  "int_times_float a x = round_double (round_double (of_int a) * x)"

definition int_of_float :: "rat \<Rightarrow> int" where
  "int_of_float x = (if 0 \<le> x then \<lfloor>x\<rfloor> else - \<lfloor>- x\<rfloor>)"

section \<open>gui/widgets/utils.py: thumbnails\<close>

text \<open>
  PIL is a library outside the repository, and of an image only the size matters
  here: an image is its \<open>(width, height)\<close>. \<^verbatim>\<open>resize\<close> returns an image of the
  requested size, \<^verbatim>\<open>crop\<close> one of the size of its box
  \<open>(left, upper, right, lower)\<close>, that is \<open>right - left\<close> by \<open>lower - upper\<close>.
\<close>

type_synonym pil_image = "int \<times> int"

definition resize :: "pil_image \<Rightarrow> int \<times> int \<Rightarrow> pil_image" where
  "resize img size_wh = size_wh"

definition crop :: "pil_image \<Rightarrow> int \<times> int \<times> int \<times> int \<Rightarrow> pil_image" where
  "crop img box = (case box of (left, upper, right, lower) \<Rightarrow> (right - left, lower - upper))"

text \<open>The size to resize to: the branch on the two ratios.\<close>

definition resize_size :: "pil_image \<Rightarrow> int \<times> int \<Rightarrow> error + (int \<times> int)" where
  "resize_size base_image target_size =
     (let base_width = fst base_image; base_height = snd base_image;
          target_width = fst target_size; target_height = snd target_size
      in case true_div base_width base_height of
           Inl e \<Rightarrow> Inl e
         | Inr base_ratio \<Rightarrow>
            (case true_div target_width target_height of
               Inl e \<Rightarrow> Inl e
             | Inr target_ratio \<Rightarrow>
                (if target_ratio \<le> base_ratio then
                   (case true_div target_height base_height of
                      Inl e \<Rightarrow> Inl e
                    | Inr r \<Rightarrow> Inr (int_of_float (int_times_float base_width r), target_height))
                 else
                   (case true_div target_width base_width of
                      Inl e \<Rightarrow> Inl e
                    | Inr r \<Rightarrow>
                        Inr (target_width, int_of_float (int_times_float base_height r))))))"

definition thumbnail_image :: "pil_image \<Rightarrow> int \<times> int \<Rightarrow> error + pil_image" where
  "thumbnail_image base_image target_size =
     (case resize_size base_image target_size of
        Inl e \<Rightarrow> Inl e
      | Inr (width, height) \<Rightarrow>
         (case true_div (width - fst target_size) 2 of
            Inl e \<Rightarrow> Inl e
          | Inr half_x \<Rightarrow>
             (case true_div (height - snd target_size) 2 of
                Inl e \<Rightarrow> Inl e
              | Inr half_y \<Rightarrow>
                 (let x_offset = int_of_float half_x;
                      y_offset = int_of_float half_y;
                      base_image1 = resize base_image (width, height)
                  in Inr (crop base_image1
                            (x_offset, y_offset, width - x_offset, height - y_offset))))))"

section \<open>Notions the properties are stated with\<close>

text \<open>The calls a callback added to the trace.\<close>

definition new_events :: "world \<Rightarrow> world \<Rightarrow> event list" where
  "new_events w w1 = drop (length (events w)) (events w1)"

fun is_spawn :: "event \<Rightarrow> bool" where
  "is_spawn (MonitoredCommandStart argv procs cwd) = True"
| "is_spawn e = False"

text \<open>The game has a runner whose configured manual command is a path that exists.\<close>

definition script_exists :: "world \<Rightarrow> bool" where
  "script_exists w =
     (case runner (game w) of
        None \<Rightarrow> False
      | Some r \<Rightarrow> (case manual_command r of
                    None \<Rightarrow> False
                  | Some cmd \<Rightarrow> path_exists w (Some cmd) False))"

text \<open>The flags of the game in two states, and the lookups outside the game's flags.\<close>

definition same_flags :: "world \<Rightarrow> world \<Rightarrow> bool" where
  "same_flags w1 w2 =
     (is_installed (game w1) = is_installed (game w2)
      \<and> is_updatable (game w1) = is_updatable (game w2)
      \<and> is_favorite (game w1) = is_favorite (game w2)
      \<and> is_hidden (game w1) = is_hidden (game w2)
      \<and> service (game w1) = service (game w2)
      \<and> runner_name (game w1) = runner_name (game w2)
      \<and> is_game_running w1 = is_game_running w2)"

definition same_lookups :: "world \<Rightarrow> world \<Rightarrow> bool" where
  "same_lookups w1 w2 =
     (has_manual_command (game w1) = has_manual_command (game w2)
      \<and> desktop_launcher_exists w1 (slug (game w1)) (id_attr (game w1))
          = desktop_launcher_exists w2 (slug (game w2)) (id_attr (game w2))
      \<and> menu_launcher_exists w1 (slug (game w1)) (id_attr (game w1))
          = menu_launcher_exists w2 (slug (game w2)) (id_attr (game w2))
      \<and> shortcut_exists w1 (game w1) = shortcut_exists w2 (game w2)
      \<and> is_steam_game w1 (game w1) = is_steam_game w2 (game w2))"

definition lookup_entries :: "string list" where
  "lookup_entries =
     [''execute-script'', ''desktop-shortcut'', ''menu-shortcut'', ''steam-shortcut'',
      ''rm-desktop-shortcut'', ''rm-menu-shortcut'', ''rm-steam-shortcut'']"

text \<open>The records handed to \<^verbatim>\<open>add_game\<close> in a trace.\<close>

fun added_records :: "event list \<Rightarrow> (string \<rightharpoonup> pyval) list" where
  "added_records [] = []"
| "added_records (AddGame r # es) = r # added_records es"
| "added_records (e # es) = added_records es"

text \<open>The copy of the overlay \<^verbatim>\<open>media/unavailable.png\<close> at a size.\<close>

definition unavailable_overlay :: "world \<Rightarrow> int \<times> int \<Rightarrow> pixbuf" where
  "unavailable_overlay w size_wh =
     Copy (ScaleSimple
        (NewFromFileAtSize (os_path_join (datapath_get w) ''media/unavailable.png'')
           (fst size_wh) (snd size_wh))
        (fst size_wh) (snd size_wh))"

section \<open>A concrete state\<close>

definition quake :: game where
  "quake = \<lparr> id_attr = PInt 7, slug = ''quake'', name = ''Quake'', runner_name = ''linux'',
     directory = ''/games/quake'', game_config_id = ''quake-1500'',
     is_installed = True, is_updatable = False, is_favorite = False, is_hidden = False,
     service = Some ''gog'',
     runner = Some \<lparr> system_config = [''manual_command'' \<mapsto> ''/games/quake/setup.sh''] \<rparr>,
     log_buffer = None, browse_dir = Some ''/games/quake'' \<rparr>"

definition quake_record :: "string \<rightharpoonup> pyval" where
  "quake_record =
     [''id'' \<mapsto> PInt 7, ''name'' \<mapsto> PStr ''Quake'', ''slug'' \<mapsto> PStr ''quake'',
      ''runner'' \<mapsto> PStr ''linux'', ''configpath'' \<mapsto> PStr ''quake-1500'',
      ''installed'' \<mapsto> PInt 1, ''service'' \<mapsto> PStr ''gog'', ''service_id'' \<mapsto> PStr ''1207''] "

definition desk :: world where
  "desk = \<lparr> game = quake, gettext = (\<lambda>s. s), gtk_safe = (\<lambda>s. s),
     application_get_game_by_id = (\<lambda>i. None),
     application_get_running_game_ids = [PInt 3, PStr ''7''],
     desktop_launcher_exists = (\<lambda>s i. False),
     menu_launcher_exists = (\<lambda>s i. False),
     shortcut_exists = (\<lambda>g. False),
     is_steam_game = (\<lambda>g. False),
     path_exists = (\<lambda>p e. p = Some ''/games/quake/setup.sh'' \<or> p = Some ''/icons/quake.png''
                        \<or> p = Some ''/icons/fallback.png''),
     question_dialog_result = YES,
     get_unusued_game_name = (\<lambda>n. n @ '' 1''),
     duplicate_game_config = (\<lambda>s c. s @ ''-1600''),
     get_game_by_field = (\<lambda>v f. if v = PInt 7 \<and> f = ''id'' then quake_record else Map.empty),
     add_game = (\<lambda>r. PInt 8),
     datapath_get = ''/usr/share/lutris'',
     pixbuf_loads = (\<lambda>p. p \<noteq> ''/icons/quake.png''),
     events = [] \<rparr>"

section \<open>Auxiliary facts\<close>

lemmas callback_defs =
  on_game_launch_def on_game_stop_def on_install_clicked_def on_update_clicked_def
  on_install_dlc_clicked_def on_show_logs_def on_add_manually_def
  on_edit_game_configuration_def on_add_favorite_game_def on_delete_favorite_game_def
  on_execute_script_clicked_def on_browse_files_def on_create_desktop_shortcut_def
  on_remove_desktop_shortcut_def on_create_menu_shortcut_def on_remove_menu_shortcut_def
  on_create_steam_shortcut_def on_remove_steam_shortcut_def on_remove_game_def
  on_view_game_def on_hide_game_def on_unhide_game_def get_running_game_def open_uri_def
  add_to_favorites_def remove_from_favorites_def set_hidden_def emit_def

lemma action_names_eq:
  "action_names w =
     [''play'', ''stop'', ''install'', ''update'', ''install_dlcs'', ''show_logs'', ''add'',
      ''duplicate'', ''configure'', ''favorite'', ''deletefavorite'', ''execute-script'',
      ''browse'', ''desktop-shortcut'', ''rm-desktop-shortcut'', ''menu-shortcut'',
      ''rm-menu-shortcut'', ''steam-shortcut'', ''rm-steam-shortcut'', ''install_more'',
      ''remove'', ''view'', ''hide'', ''unhide'']"
  by (simp add: action_names_def get_game_actions_def Let_def)

lemma displayed_keys_eq:
  "map fst (get_displayed_entries w) =
     [''add'', ''duplicate'', ''install'', ''play'', ''update'', ''install_dlcs'', ''stop'',
      ''configure'', ''browse'', ''show_logs'', ''favorite'', ''deletefavorite'',
      ''install_more'', ''execute-script'', ''desktop-shortcut'', ''menu-shortcut'',
      ''steam-shortcut'', ''rm-desktop-shortcut'', ''rm-menu-shortcut'',
      ''rm-steam-shortcut'', ''remove'', ''view'', ''hide'', ''unhide'']"
  by (simp add: get_displayed_entries_def Let_def)

text \<open>Every row of the table is one of the twenty-four the source lists.\<close>

lemma in_table:
  "(k, l, cb) \<in> set (get_game_actions w) \<Longrightarrow>
     (k = ''play'' \<and> cb = on_game_launch) \<or> (k = ''stop'' \<and> cb = on_game_stop)
   \<or> (k = ''install'' \<and> cb = on_install_clicked) \<or> (k = ''update'' \<and> cb = on_update_clicked)
   \<or> (k = ''install_dlcs'' \<and> cb = on_install_dlc_clicked)
   \<or> (k = ''show_logs'' \<and> cb = on_show_logs)
   \<or> (k = ''add'' \<and> cb = on_add_manually) \<or> (k = ''duplicate'' \<and> cb = on_game_duplicate)
   \<or> (k = ''configure'' \<and> cb = on_edit_game_configuration)
   \<or> (k = ''favorite'' \<and> cb = on_add_favorite_game)
   \<or> (k = ''deletefavorite'' \<and> cb = on_delete_favorite_game)
   \<or> (k = ''execute-script'' \<and> cb = on_execute_script_clicked)
   \<or> (k = ''browse'' \<and> cb = on_browse_files)
   \<or> (k = ''desktop-shortcut'' \<and> cb = on_create_desktop_shortcut)
   \<or> (k = ''rm-desktop-shortcut'' \<and> cb = on_remove_desktop_shortcut)
   \<or> (k = ''menu-shortcut'' \<and> cb = on_create_menu_shortcut)
   \<or> (k = ''rm-menu-shortcut'' \<and> cb = on_remove_menu_shortcut)
   \<or> (k = ''steam-shortcut'' \<and> cb = on_create_steam_shortcut)
   \<or> (k = ''rm-steam-shortcut'' \<and> cb = on_remove_steam_shortcut)
   \<or> (k = ''install_more'' \<and> cb = on_install_clicked)
   \<or> (k = ''remove'' \<and> cb = on_remove_game) \<or> (k = ''view'' \<and> cb = on_view_game)
   \<or> (k = ''hide'' \<and> cb = on_hide_game) \<or> (k = ''unhide'' \<and> cb = on_unhide_game)"
  unfolding get_game_actions_def Let_def list.set insert_iff empty_iff prod.inject
  by (elim disjE conjE FalseE; simp)

lemma run_action_simps:
  "run_action ''hide'' w = Some (on_hide_game w)"
  "run_action ''install'' w = Some (on_install_clicked w)"
  "run_action ''play'' w = Some (on_game_launch w)"
  "run_action ''stop'' w = Some (on_game_stop w)"
  "run_action ''favorite'' w = Some (on_add_favorite_game w)"
  "run_action ''deletefavorite'' w = Some (on_delete_favorite_game w)"
  "run_action ''unhide'' w = Some (on_unhide_game w)"
  "run_action ''desktop-shortcut'' w = Some (on_create_desktop_shortcut w)"
  "run_action ''rm-desktop-shortcut'' w = Some (on_remove_desktop_shortcut w)"
  "run_action ''menu-shortcut'' w = Some (on_create_menu_shortcut w)"
  "run_action ''rm-menu-shortcut'' w = Some (on_remove_menu_shortcut w)"
  "run_action ''steam-shortcut'' w = Some (on_create_steam_shortcut w)"
  "run_action ''rm-steam-shortcut'' w = Some (on_remove_steam_shortcut w)"
  by (simp_all add: run_action_def handler_def get_game_actions_def Let_def)

lemma new_events_emitted: "new_events w (w\<lparr>events := events w @ es\<rparr>) = es"
  by (simp add: new_events_def)

lemma new_events_self: "new_events w w = []"
  by (simp add: new_events_def)

lemma in_running_ids_iff:
  "in_running_ids ids gid \<longleftrightarrow> (\<exists>game_id \<in> set ids. str game_id = str gid)"
  by (induction ids) auto

lemma str_int_7: "str_int 7 = ''7''"
  by (simp add: str_int_def str_nat.simps)

lemma str_int_3: "str_int 3 = ''3''"
  by (simp add: str_int_def str_nat.simps)

lemma duplicate_keeps_game: "game (snd (on_game_duplicate w)) = game w"
  by (simp add: on_game_duplicate_def emit_def Let_def split: sum.splits prod.splits)

lemma duplicate_returns:
  "question_dialog_result w \<noteq> YES
     \<or> get_game_by_field w (id_attr (game w)) ''id'' ''id'' \<noteq> None
   \<Longrightarrow> fst (on_game_duplicate w) = None"
  by (auto simp add: on_game_duplicate_def duplicate_fields_def emit_def Let_def
      split: sum.splits prod.splits if_splits)

lemma execute_script_returns:
  "runner (game w) = Some r \<Longrightarrow> manual_command r = Some cmd
   \<Longrightarrow> fst (on_execute_script_clicked w) = None"
  by (simp add: on_execute_script_clicked_def)

lemma execute_script_spawns:
  "runner (game w) = Some r \<Longrightarrow> manual_command r = Some cmd
   \<Longrightarrow> path_exists w (Some cmd) False
   \<Longrightarrow> on_execute_script_clicked w =
     (None, w\<lparr>events := events w @
        [MonitoredCommandStart [cmd] [basename cmd] (directory (game w)),
         LoggerInfo ''Running %s in the background'' [AStr cmd]]\<rparr>)"
  by (simp add: on_execute_script_clicked_def emit_def)

lemma execute_script_skips:
  "\<not> script_exists w \<Longrightarrow> snd (on_execute_script_clicked w) = w"
  by (simp add: on_execute_script_clicked_def script_exists_def split: option.splits)

lemma script_existsD:
  "script_exists w \<Longrightarrow>
   \<exists>r cmd. runner (game w) = Some r \<and> manual_command r = Some cmd
           \<and> path_exists w (Some cmd) False"
  by (simp add: script_exists_def split: option.splits)

section \<open>The table of actions and the visibility dictionary\<close>

text \<open>
  Claim C1. For every game, the names of the actions that \<^verbatim>\<open>get_game_actions\<close> returns
  are exactly the keys of the dictionary that \<^verbatim>\<open>get_displayed_entries\<close> returns; no
  name occurs twice in the table and no key twice in the dictionary, so that every
  named action has one visibility predicate and every predicate gates a named action.
\<close>

theorem actions_fully_gated:
  "set (action_names w) = set (map fst (get_displayed_entries w))
   \<and> distinct (action_names w)
   \<and> distinct (map fst (get_displayed_entries w))"
proof -
  have "set (action_names w) = set (map fst (get_displayed_entries w))"
  proof (rule subset_antisym)
    show "set (action_names w) \<subseteq> set (map fst (get_displayed_entries w))"
      unfolding action_names_eq displayed_keys_eq by simp
    show "set (map fst (get_displayed_entries w)) \<subseteq> set (action_names w)"
      unfolding action_names_eq displayed_keys_eq by simp
  qed
  moreover have "distinct (action_names w)"
    unfolding action_names_eq by simp
  moreover have "distinct (map fst (get_displayed_entries w))"
    unfolding displayed_keys_eq by simp
  ultimately show ?thesis by blast
qed

text \<open>
  Claim C6. In every state, the dictionary of \<^verbatim>\<open>get_displayed_entries\<close> never shows
  both entries of any of the pairs favorite/deletefavorite, hide/unhide, play/stop,
  desktop-shortcut/rm-desktop-shortcut, menu-shortcut/rm-menu-shortcut,
  steam-shortcut/rm-steam-shortcut and install/install_more.
\<close>

theorem contradictory_entries_exclusive:
  "\<not> (shown w ''favorite'' \<and> shown w ''deletefavorite'')
   \<and> \<not> (shown w ''hide'' \<and> shown w ''unhide'')
   \<and> \<not> (shown w ''play'' \<and> shown w ''stop'')
   \<and> \<not> (shown w ''desktop-shortcut'' \<and> shown w ''rm-desktop-shortcut'')
   \<and> \<not> (shown w ''menu-shortcut'' \<and> shown w ''rm-menu-shortcut'')
   \<and> \<not> (shown w ''steam-shortcut'' \<and> shown w ''rm-steam-shortcut'')
   \<and> \<not> (shown w ''install'' \<and> shown w ''install_more'')"
  by (auto simp add: shown_def get_displayed_entries_def Let_def)

section \<open>What the visibility depends on\<close>

text \<open>
  Claim C3, as stated, fails: two states whose game has the same flags and the same
  running status, and that differ only in whether the desktop launcher file exists,
  get different dictionaries from \<^verbatim>\<open>get_displayed_entries\<close>.
\<close>

theorem visibility_reads_launcher_files:
  "same_flags desk (desk\<lparr>desktop_launcher_exists := (\<lambda>s i. True)\<rparr>)
   \<and> get_displayed_entries desk
       \<noteq> get_displayed_entries (desk\<lparr>desktop_launcher_exists := (\<lambda>s i. True)\<rparr>)"
  by (simp add: same_flags_def get_displayed_entries_def Let_def desk_def quake_def
      is_game_running_def)

text \<open>
  Claim C3, amended. For two states in which the game has equal flags (is_installed,
  is_updatable, is_favorite, is_hidden, service, runner_name and running status), the
  dictionaries of \<^verbatim>\<open>get_displayed_entries\<close> agree on every entry other than
  execute-script and the six shortcut entries; these seven also read the runner's
  manual_command, the xdg launcher files and Steam's shortcut list, and when those
  lookups agree too the dictionaries are equal.
\<close>

theorem visibility_from_flags_and_lookups:
  assumes "same_flags w1 w2"
  shows "(\<forall>k. k \<notin> set lookup_entries \<longrightarrow>
            map_of (get_displayed_entries w1) k = map_of (get_displayed_entries w2) k)
         \<and> (same_lookups w1 w2 \<longrightarrow> get_displayed_entries w1 = get_displayed_entries w2)"
  using assms
  by (simp add: same_flags_def same_lookups_def lookup_entries_def get_displayed_entries_def
      Let_def)

theorem visibility_from_flags_and_lookups_witness:
  "same_flags desk (desk\<lparr>desktop_launcher_exists := (\<lambda>s i. True)\<rparr>)
   \<and> ''play'' \<notin> set lookup_entries
   \<and> map_of (get_displayed_entries desk) ''play''
        = map_of (get_displayed_entries (desk\<lparr>desktop_launcher_exists := (\<lambda>s i. True)\<rparr>))
            ''play''
   \<and> same_flags desk (desk\<lparr>path_exists := (\<lambda>p e. False)\<rparr>)
   \<and> same_lookups desk (desk\<lparr>path_exists := (\<lambda>p e. False)\<rparr>)
   \<and> get_displayed_entries desk
        = get_displayed_entries (desk\<lparr>path_exists := (\<lambda>p e. False)\<rparr>)"
  using visibility_from_flags_and_lookups
          [of desk "desk\<lparr>desktop_launcher_exists := (\<lambda>s i. True)\<rparr>"]
        visibility_from_flags_and_lookups [of desk "desk\<lparr>path_exists := (\<lambda>p e. False)\<rparr>"]
  by (simp add: same_flags_def same_lookups_def lookup_entries_def is_game_running_def)

section \<open>Exceptions of the callbacks\<close>

text \<open>
  Claim C2, as stated, fails: for a game without a slug the handler of the action
  install raises RuntimeError to its caller, with nothing logged and no dialog shown.
\<close>

theorem install_raises_without_slug:
  "run_action ''install'' (desk\<lparr>game := quake\<lparr>slug := []\<rparr>\<rparr>)
     = Some (Some RuntimeError, desk\<lparr>game := quake\<lparr>slug := []\<rparr>\<rparr>)"
  by (simp add: run_action_simps on_install_clicked_def)

text \<open>
  Claim C2, amended. Of the handlers that \<^verbatim>\<open>get_game_actions\<close> returns, the one of
  install and install_more raises RuntimeError to its caller exactly when the game has
  no slug, and otherwise emits game-install. Every handler other than those of install,
  install_more, execute-script and duplicate returns without raising, whatever the
  game; execute-script does so when the game has a runner with a manual_command, and
  duplicate when the user declines or the database record has an id. The two error
  cases of browse (no directory, or a directory that does not exist) end in one
  NoticeDialog. Calls into code outside the two modules are taken to return.
\<close>

theorem callbacks_raise_only_install:
  assumes "(k, l, cb) \<in> set (get_game_actions w)"
  shows "(k \<notin> {''install'', ''install_more'', ''execute-script'', ''duplicate''}
             \<longrightarrow> fst (cb w) = None)
    \<and> (k \<in> {''install'', ''install_more''} \<longrightarrow>
          cb w = (if slug (game w) = [] then (Some RuntimeError, w)
                  else (None, emit (GameEmit ''game-install'') w)))
    \<and> (k = ''execute-script''
          \<longrightarrow> (\<exists>r cmd. runner (game w) = Some r \<and> manual_command r = Some cmd)
          \<longrightarrow> fst (cb w) = None)
    \<and> (k = ''duplicate''
          \<longrightarrow> question_dialog_result w \<noteq> YES
               \<or> get_game_by_field w (id_attr (game w)) ''id'' ''id'' \<noteq> None
          \<longrightarrow> fst (cb w) = None)
    \<and> (k = ''browse''
          \<longrightarrow> \<not> (truthy (browse_dir (game w)) \<and> path_exists w (browse_dir (game w)) False)
          \<longrightarrow> (\<exists>msg args. new_events w (snd (cb w)) = [NoticeDialog msg args]))"
  using in_table [OF assms]
  apply (elim disjE conjE)
  apply (simp_all add: duplicate_returns)
  apply (auto simp add: callback_defs new_events_def Let_def execute_script_returns
      split: option.splits prod.splits)
  done

theorem callbacks_raise_only_install_witness:
  "(''install'', ''Install'', on_install_clicked) \<in> set (get_game_actions desk)
   \<and> on_install_clicked desk = (None, emit (GameEmit ''game-install'') desk)
   \<and> (''show_logs'', ''Show logs'', on_show_logs) \<in> set (get_game_actions desk)
   \<and> fst (on_show_logs desk) = None"
proof -
  have g: "gettext desk = (\<lambda>s. s)" "slug (game desk) = ''quake''"
    by (simp_all add: desk_def quake_def)
  have a: "(''install'', ''Install'', on_install_clicked) \<in> set (get_game_actions desk)"
    by (simp add: get_game_actions_def Let_def g)
  have b: "(''show_logs'', ''Show logs'', on_show_logs) \<in> set (get_game_actions desk)"
    by (simp add: get_game_actions_def Let_def g)
  show ?thesis
    using a b callbacks_raise_only_install [OF a] callbacks_raise_only_install [OF b]
    by (simp add: g)
qed

section \<open>What the callbacks change of the game\<close>

text \<open>
  Claim C4, as stated, fails: the handler of hide, run for a game that is not hidden,
  leaves it hidden.
\<close>

theorem hide_changes_hidden_flag:
  "run_action ''hide'' desk
     = Some (None, desk\<lparr>game := quake\<lparr>is_hidden := True\<rparr>, events := [GameSetHidden True]\<rparr>)
   \<and> is_hidden (game desk) = False"
  by (simp add: run_action_simps on_hide_game_def set_hidden_def emit_def desk_def quake_def)

text \<open>
  Claim C4, amended. No callback assigns a field of the Game record itself. The handlers
  of favorite and deletefavorite change is_favorite, and nothing else, through
  \<^verbatim>\<open>add_to_favorites\<close> and \<^verbatim>\<open>remove_from_favorites\<close>; those of hide and unhide change
  is_hidden, and nothing else, through \<^verbatim>\<open>set_hidden\<close>; after every other handler the
  record is the one before, the calls it makes into the game model (launch, force_stop,
  emit, save) being recorded, not followed.
\<close>

theorem callbacks_game_record:
  assumes "(k, l, cb) \<in> set (get_game_actions w)"
  shows "game (snd (cb w)) =
     (if k = ''favorite'' then (game w)\<lparr>is_favorite := True\<rparr>
      else if k = ''deletefavorite'' then (game w)\<lparr>is_favorite := False\<rparr>
      else if k = ''hide'' then (game w)\<lparr>is_hidden := True\<rparr>
      else if k = ''unhide'' then (game w)\<lparr>is_hidden := False\<rparr>
      else game w)"
  using in_table [OF assms]
  by (elim disjE conjE; simp add: duplicate_keeps_game;
      simp add: callback_defs Let_def split: option.splits prod.splits)

theorem callbacks_game_record_witness:
  "(''favorite'', ''Add to favorites'', on_add_favorite_game) \<in> set (get_game_actions desk)
   \<and> game (snd (on_add_favorite_game desk)) = quake\<lparr>is_favorite := True\<rparr>
   \<and> (''view'', ''View on Lutris.net'', on_view_game) \<in> set (get_game_actions desk)
   \<and> game (snd (on_view_game desk)) = quake"
proof -
  have g: "gettext desk = (\<lambda>s. s)" "game desk = quake"
    by (simp_all add: desk_def)
  have a: "(''favorite'', ''Add to favorites'', on_add_favorite_game)
             \<in> set (get_game_actions desk)"
    by (simp add: get_game_actions_def Let_def g)
  have b: "(''view'', ''View on Lutris.net'', on_view_game) \<in> set (get_game_actions desk)"
    by (simp add: get_game_actions_def Let_def g)
  show ?thesis
    using a b callbacks_game_record [OF a] callbacks_game_record [OF b]
    by (simp add: g)
qed


section \<open>Running the game's script\<close>

text \<open>
  Claim C7. \<^verbatim>\<open>on_execute_script_clicked\<close> starts the external process exactly when the
  game's configured manual_command is a path that exists. What it starts then is that
  manual_command: it makes one \<^verbatim>\<open>MonitoredCommand(...).start()\<close> call, with the
  command, its basename and the game's directory, logs one line and returns; nothing
  waits for the process, retries or coordinates with it. When the path does not exist
  no process is started and the state is the one before; for a game with a runner the
  callback then returns normally.
\<close>

theorem execute_script_guarded:
  "(list_ex is_spawn (new_events w (snd (on_execute_script_clicked w))) \<longleftrightarrow> script_exists w)
   \<and> (\<forall>r cmd. runner (game w) = Some r \<longrightarrow> manual_command r = Some cmd
          \<longrightarrow> path_exists w (Some cmd) False
          \<longrightarrow> on_execute_script_clicked w =
                (None, w\<lparr>events := events w @
                   [MonitoredCommandStart [cmd] [basename cmd] (directory (game w)),
                    LoggerInfo ''Running %s in the background'' [AStr cmd]]\<rparr>))
   \<and> (\<not> script_exists w \<longrightarrow> snd (on_execute_script_clicked w) = w)
   \<and> (\<forall>r. runner (game w) = Some r \<longrightarrow> \<not> path_exists w (manual_command r) False
          \<longrightarrow> on_execute_script_clicked w = (None, w))"
proof -
  have spawn: "list_ex is_spawn (new_events w (snd (on_execute_script_clicked w)))
                 \<longleftrightarrow> script_exists w"
  proof (cases "script_exists w")
    case True
    then obtain r cmd where h: "runner (game w) = Some r" "manual_command r = Some cmd"
        "path_exists w (Some cmd) False"
      using script_existsD by blast
    have "list_ex is_spawn (new_events w (snd (on_execute_script_clicked w)))"
      unfolding execute_script_spawns [OF h] snd_conv new_events_emitted by simp
    with True show ?thesis by blast
  next
    case False
    have "snd (on_execute_script_clicked w) = w"
      by (rule execute_script_skips [OF False])
    with False show ?thesis by (simp add: new_events_self)
  qed
  have skip: "\<not> script_exists w \<longrightarrow> snd (on_execute_script_clicked w) = w"
    using execute_script_skips by blast
  have normal: "\<forall>r. runner (game w) = Some r \<longrightarrow> \<not> path_exists w (manual_command r) False
          \<longrightarrow> on_execute_script_clicked w = (None, w)"
    by (simp add: on_execute_script_clicked_def)
  show ?thesis
    using spawn skip normal execute_script_spawns by blast
qed

theorem execute_script_guarded_witness:
  "script_exists desk
   \<and> on_execute_script_clicked desk =
       (None, desk\<lparr>events :=
          [MonitoredCommandStart [''/games/quake/setup.sh''] [''setup.sh''] ''/games/quake'',
           LoggerInfo ''Running %s in the background'' [AStr ''/games/quake/setup.sh'']]\<rparr>)
   \<and> \<not> script_exists (desk\<lparr>path_exists := (\<lambda>p e. False)\<rparr>)
   \<and> on_execute_script_clicked (desk\<lparr>path_exists := (\<lambda>p e. False)\<rparr>)
        = (None, desk\<lparr>path_exists := (\<lambda>p e. False)\<rparr>)"
proof -
  have g: "runner (game desk) = Some \<lparr>system_config = [''manual_command'' \<mapsto> ''/games/quake/setup.sh'']\<rparr>"
      "directory (game desk) = ''/games/quake''" "events desk = []"
      "path_exists desk (Some ''/games/quake/setup.sh'') False"
    by (simp_all add: desk_def quake_def)
  have m: "manual_command \<lparr>system_config = [''manual_command'' \<mapsto> ''/games/quake/setup.sh'']\<rparr>
             = Some ''/games/quake/setup.sh''"
    by (simp add: manual_command_def)
  have b: "basename ''/games/quake/setup.sh'' = ''setup.sh''"
    by (simp add: basename_def)
  have a: "script_exists desk"
    by (simp add: script_exists_def g m)
  have c: "\<not> script_exists (desk\<lparr>path_exists := (\<lambda>p e. False)\<rparr>)"
    by (simp add: script_exists_def split: option.splits)
  have d: "runner (game (desk\<lparr>path_exists := (\<lambda>p e. False)\<rparr>)) =
             Some \<lparr>system_config = [''manual_command'' \<mapsto> ''/games/quake/setup.sh'']\<rparr>"
    by (simp add: g)
  have e: "on_execute_script_clicked desk =
       (None, desk\<lparr>events := events desk @
          [MonitoredCommandStart [''/games/quake/setup.sh''] [basename ''/games/quake/setup.sh'']
             (directory (game desk)),
           LoggerInfo ''Running %s in the background'' [AStr ''/games/quake/setup.sh'']]\<rparr>)"
    using execute_script_guarded [of desk] g(1,4) m by blast
  have f: "on_execute_script_clicked (desk\<lparr>path_exists := (\<lambda>p e. False)\<rparr>)
        = (None, desk\<lparr>path_exists := (\<lambda>p e. False)\<rparr>)"
    using execute_script_guarded [of "desk\<lparr>path_exists := (\<lambda>p e. False)\<rparr>"] d by simp
  show ?thesis
    using a c e f by (simp add: g b)
qed

section \<open>The wiring of the menu actions\<close>

text \<open>
  Claim C8, as stated, fails for the removal of xdg shortcuts: \<^verbatim>\<open>remove_launcher\<close> is
  called with the game's slug and id only. For the same game under another name the
  handler of rm-menu-shortcut makes the same call.
\<close>

theorem remove_launcher_without_name:
  "name (game desk) \<noteq> name (game (desk\<lparr>game := quake\<lparr>name := ''Doom''\<rparr>\<rparr>))
   \<and> run_action ''rm-menu-shortcut'' desk
       = Some (None, desk\<lparr>events := [XdgRemoveLauncher ''quake'' (PInt 7) False True]\<rparr>)
   \<and> new_events (desk\<lparr>game := quake\<lparr>name := ''Doom''\<rparr>\<rparr>)
        (snd (on_remove_menu_shortcut (desk\<lparr>game := quake\<lparr>name := ''Doom''\<rparr>\<rparr>)))
      = new_events desk (snd (on_remove_menu_shortcut desk))"
  by (simp add: run_action_simps on_remove_menu_shortcut_def new_events_def emit_def desk_def
      quake_def)

text \<open>
  Claim C8, amended. For every game: play calls the game's launch; stop calls
  force_stop when the game's id is among the ids of the running games, and otherwise
  only logs a warning; favorite and deletefavorite call add_to_favorites and
  remove_from_favorites; hide and unhide call set_hidden(True) and set_hidden(False);
  desktop-shortcut and menu-shortcut call xdgshortcuts.create_launcher with the game's
  slug, id and name; rm-desktop-shortcut and rm-menu-shortcut call
  xdgshortcuts.remove_launcher with the game's slug and id; steam-shortcut and
  rm-steam-shortcut call the Steam module's create_shortcut and remove_shortcut with
  the game itself.
\<close>

theorem actions_wired:
  "run_action ''play'' w = Some (None, emit GameLaunch w)
   \<and> run_action ''stop'' w =
       Some (None, if (\<exists>game_id \<in> set (application_get_running_game_ids w).
                          str game_id = str (id_attr (game w)))
                   then emit GameForceStop w
                   else emit (LoggerWarning ''Game %s not in %s''
                           [AVal (id_attr (game w)),
                            AIds (application_get_running_game_ids w)]) w)
   \<and> run_action ''favorite'' w = Some (None, add_to_favorites w)
   \<and> run_action ''deletefavorite'' w = Some (None, remove_from_favorites w)
   \<and> run_action ''hide'' w = Some (None, set_hidden True w)
   \<and> run_action ''unhide'' w = Some (None, set_hidden False w)
   \<and> run_action ''desktop-shortcut'' w =
       Some (None, emit (XdgCreateLauncher (slug (game w)) (id_attr (game w))
                           (name (game w)) True False) w)
   \<and> run_action ''menu-shortcut'' w =
       Some (None, emit (XdgCreateLauncher (slug (game w)) (id_attr (game w))
                           (name (game w)) False True) w)
   \<and> run_action ''rm-desktop-shortcut'' w =
       Some (None, emit (XdgRemoveLauncher (slug (game w)) (id_attr (game w)) True False) w)
   \<and> run_action ''rm-menu-shortcut'' w =
       Some (None, emit (XdgRemoveLauncher (slug (game w)) (id_attr (game w)) False True) w)
   \<and> run_action ''steam-shortcut'' w = Some (None, emit (SteamCreateShortcut (game w)) w)
   \<and> run_action ''rm-steam-shortcut'' w = Some (None, emit (SteamRemoveShortcut (game w)) w)"
  by (simp add: run_action_simps callback_defs Let_def in_running_ids_iff)

theorem actions_wired_witness:
  "run_action ''stop'' desk = Some (None, desk\<lparr>events := [GameForceStop]\<rparr>)
   \<and> run_action ''stop'' (desk\<lparr>application_get_running_game_ids := [PInt 3]\<rparr>)
      = Some (None, desk\<lparr>application_get_running_game_ids := [PInt 3],
            events := [LoggerWarning ''Game %s not in %s'' [AVal (PInt 7), AIds [PInt 3]]]\<rparr>)"
proof -
  have g: "id_attr (game desk) = PInt 7"
     "application_get_running_game_ids desk = [PInt 3, PStr ''7'']" "events desk = []"
    by (simp_all add: desk_def quake_def)
  show ?thesis
    using actions_wired [of desk]
      actions_wired [of "desk\<lparr>application_get_running_game_ids := [PInt 3]\<rparr>"]
    by (simp add: g emit_def str_int_7 str_int_3)
qed

section \<open>Duplicating a game\<close>

text \<open>
  Claim C10. When the user confirms the duplication of a game that has a record in the
  database, \<^verbatim>\<open>on_game_duplicate\<close> returns normally and hands exactly one record to
  \<^verbatim>\<open>add_game\<close>. That record has no id (the database gives it a new one), its name is
  the one \<^verbatim>\<open>get_unusued_game_name\<close> found for the original name, its configpath is the
  configuration \<^verbatim>\<open>duplicate_game_config\<close> made, or None when the game had none, it has
  neither service nor service_id, and every other field is that of the original
  record. Besides the question dialog and the duplication of the configuration, the
  only calls are that \<^verbatim>\<open>add_game\<close> and the \<^verbatim>\<open>save()\<close> of the new game, and nothing
  but the trace of calls changes: the original record is not written and the game is
  as before.
\<close>

theorem duplicate_changes_stated_fields_only:
  assumes "question_dialog_result w = YES"
    and "get_game_by_field w (id_attr (game w)) ''id'' ''id'' \<noteq> None"
  shows "\<exists>new_record.
      fst (on_game_duplicate w) = None
    \<and> added_records (new_events w (snd (on_game_duplicate w))) = [new_record]
    \<and> new_record ''id'' = None
    \<and> new_record ''name'' = Some (PStr (get_unusued_game_name w (name (game w))))
    \<and> new_record ''configpath'' =
         Some (if game_config_id (game w) = [] then PNone
               else PStr (duplicate_game_config w (slug (game w)) (game_config_id (game w))))
    \<and> new_record ''service'' = None
    \<and> new_record ''service_id'' = None
    \<and> (\<forall>k. k \<notin> {''id'', ''name'', ''configpath'', ''service'', ''service_id''} \<longrightarrow>
           new_record k = get_game_by_field w (id_attr (game w)) ''id'' k)
    \<and> (\<exists>dialog. new_events w (snd (on_game_duplicate w)) =
           dialog #
           (if game_config_id (game w) = [] then []
            else [DuplicateGameConfig (slug (game w)) (game_config_id (game w))])
           @ [AddGame new_record, GameSave (add_game w new_record)])
    \<and> snd (on_game_duplicate w)
        = w\<lparr>events := events w @ new_events w (snd (on_game_duplicate w))\<rparr>"
  using assms
  by (auto simp add: on_game_duplicate_def duplicate_fields_def emit_def new_events_def Let_def)

theorem duplicate_changes_stated_fields_only_witness:
  "question_dialog_result desk = YES
   \<and> get_game_by_field desk (id_attr (game desk)) ''id'' ''id'' = Some (PInt 7)
   \<and> (\<exists>new_record.
         added_records (new_events desk (snd (on_game_duplicate desk))) = [new_record]
       \<and> new_record ''id'' = None
       \<and> new_record ''name'' = Some (PStr ''Quake 1'')
       \<and> new_record ''configpath'' = Some (PStr ''quake-1600'')
       \<and> new_record ''service'' = None
       \<and> new_record ''runner'' = Some (PStr ''linux''))"
proof -
  have h1: "question_dialog_result desk = YES"
    by (simp add: desk_def)
  have r: "get_game_by_field desk (id_attr (game desk)) ''id'' = quake_record"
    by (simp add: desk_def quake_def)
  have h2: "get_game_by_field desk (id_attr (game desk)) ''id'' ''id'' \<noteq> None"
    by (simp add: r quake_record_def)
  obtain new_record where n:
      "added_records (new_events desk (snd (on_game_duplicate desk))) = [new_record]"
      "new_record ''id'' = None"
      "new_record ''name'' = Some (PStr (get_unusued_game_name desk (name (game desk))))"
      "new_record ''configpath'' =
         Some (if game_config_id (game desk) = [] then PNone
               else PStr (duplicate_game_config desk (slug (game desk))
                            (game_config_id (game desk))))"
      "new_record ''service'' = None"
      "\<forall>k. k \<notin> {''id'', ''name'', ''configpath'', ''service'', ''service_id''} \<longrightarrow>
           new_record k = get_game_by_field desk (id_attr (game desk)) ''id'' k"
    using duplicate_changes_stated_fields_only [OF h1 h2] by blast
  have "new_record ''runner'' = Some (PStr ''linux'')"
    using n(6) [rule_format, of "''runner''"] by (simp add: r quake_record_def)
  moreover have "new_record ''name'' = Some (PStr ''Quake 1'')"
    using n(3) by (simp add: desk_def quake_def)
  moreover have "new_record ''configpath'' = Some (PStr ''quake-1600'')"
    using n(4) by (simp add: desk_def quake_def)
  moreover have "get_game_by_field desk (id_attr (game desk)) ''id'' ''id'' = Some (PInt 7)"
    by (simp add: r quake_record_def)
  ultimately show ?thesis
    using h1 n(1,2,5) by blast
qed


section \<open>Loading a pixbuf\<close>

text \<open>
  Claim C5. \<^verbatim>\<open>get_pixbuf\<close> is to return the image when the file exists and loads, and
  otherwise the given fallback or the default icon or banner; its docstring says
  ``Return a pixbuf from file `image` at `size` or fallback to `fallback`''. The code
  does not do so for an image file that exists and cannot be loaded: for an installed
  game, with a fallback that exists and loads, it logs the error and returns the bare
  overlay \<^verbatim>\<open>media/unavailable.png\<close>, in which the fallback has no part, whereas for a
  missing image file it does load the fallback.
\<close>

theorem get_pixbuf_no_fallback_on_load_error:
  "path_exists desk (Some ''/icons/quake.png'') True
   \<and> \<not> pixbuf_loads desk ''/icons/quake.png''
   \<and> path_exists desk (Some ''/icons/fallback.png'') False
   \<and> pixbuf_loads desk ''/icons/fallback.png''
   \<and> get_pixbuf desk ''/icons/quake.png'' (32, 32) (Some ''/icons/fallback.png'') True
       = (Inr (Copy (ScaleSimple
                (NewFromFileAtSize ''/usr/share/lutris/media/unavailable.png'' 32 32) 32 32)),
          desk\<lparr>events := [LoggerError ''Unable to load icon from image %s''
                              [AStr ''/icons/quake.png'']]\<rparr>)
   \<and> ''/icons/fallback.png'' \<notin> set (pixbuf_files
         (Copy (ScaleSimple
            (NewFromFileAtSize ''/usr/share/lutris/media/unavailable.png'' 32 32) 32 32)))
   \<and> get_pixbuf (desk\<lparr>path_exists := (\<lambda>p e. p = Some ''/icons/fallback.png'')\<rparr>)
         ''/icons/quake.png'' (32, 32) (Some ''/icons/fallback.png'') True
       = (Inr (ScaleSimple (NewFromFileAtSize ''/icons/fallback.png'' 32 32) 32 32),
          desk\<lparr>path_exists := (\<lambda>p e. p = Some ''/icons/fallback.png'')\<rparr>)"
  by (simp add: get_pixbuf_def load_pixbuf_def new_from_file_at_size_def get_overlay_def
      fallback_or_default_def os_path_join_def emit_def desk_def Let_def)

text \<open>
  What \<^verbatim>\<open>get_pixbuf\<close> returns, case by case, where the overlay
  \<^verbatim>\<open>media/unavailable.png\<close> loads; \<open>fb\<close> is the given fallback or, absent one, the
  default icon or banner. An installed game gets the image, or the fallback when the
  image file is missing, scaled to the size; a game that is not installed gets the
  same pixbuf composited onto the overlay; and when the image file exists and does
  not load, or neither file exists, the result is the bare overlay.
\<close>

lemma get_pixbuf_cases:
  fixes w image_path size_wh fallback
  defines "width \<equiv> fst size_wh" and "height \<equiv> snd size_wh"
    and "fb \<equiv> fallback_or_default w size_wh fallback"
    and "overlay \<equiv> unavailable_overlay w size_wh"
  assumes ov: "pixbuf_loads w (os_path_join (datapath_get w) ''media/unavailable.png'')"
  shows "path_exists w (Some image_path) True \<Longrightarrow> pixbuf_loads w image_path \<Longrightarrow>
      get_pixbuf w image_path size_wh fallback True =
        (Inr (ScaleSimple (ScaleSimple (NewFromFileAtSize image_path width height)
                width height) width height), w)"
    and "path_exists w (Some image_path) True \<Longrightarrow> pixbuf_loads w image_path \<Longrightarrow>
      get_pixbuf w image_path size_wh fallback False =
        (Inr (Composite (ScaleSimple (NewFromFileAtSize image_path width height) width height)
                overlay width height), w)"
    and "\<not> path_exists w (Some image_path) True \<Longrightarrow> path_exists w (Some fb) False \<Longrightarrow>
         pixbuf_loads w fb \<Longrightarrow>
      get_pixbuf w image_path size_wh fallback True =
        (Inr (ScaleSimple (NewFromFileAtSize fb width height) width height), w)"
    and "\<not> path_exists w (Some image_path) True \<Longrightarrow> path_exists w (Some fb) False \<Longrightarrow>
         pixbuf_loads w fb \<Longrightarrow>
      get_pixbuf w image_path size_wh fallback False =
        (Inr (Composite (NewFromFileAtSize fb width height) overlay width height), w)"
    and "path_exists w (Some image_path) True \<Longrightarrow> \<not> pixbuf_loads w image_path \<Longrightarrow>
      get_pixbuf w image_path size_wh fallback is_installed1 =
        (Inr overlay,
         emit (LoggerError ''Unable to load icon from image %s'' [AStr image_path]) w)"
    and "\<not> path_exists w (Some image_path) True \<Longrightarrow> \<not> path_exists w (Some fb) False \<Longrightarrow>
      get_pixbuf w image_path size_wh fallback is_installed1 = (Inr overlay, w)"
  using ov
  unfolding get_pixbuf_def load_pixbuf_def width_def height_def fb_def overlay_def
  by (simp_all add: new_from_file_at_size_def get_overlay_def unavailable_overlay_def
      emit_def Let_def split: bool.splits)

section \<open>The size of a thumbnail\<close>

lemma round_double_tenth: "round_double (1 / 10) = 3602879701896397 / 36028797018963968"
  by code_simp

lemma resize_size_47: "resize_size (47, 47) (3, 3) = Inr (2, 3)"
  by code_simp

text \<open>
  Claim C9. For a base image and a target size with positive components,
  \<^verbatim>\<open>thumbnail_image\<close> is to return an image at least as wide and as high as the target
  and at most one pixel larger. The code computes the width to resize to as
  \<^verbatim>\<open>int(base_width * (target_height / base_height))\<close> in floats: for a base image of
  47 by 47 and the target 3 by 3 the quotient 3 / 47 is rounded down, 47 times it is the
  double just below 3, and \<^verbatim>\<open>int\<close> truncates it to 2. The image is resized to 2 by 3,
  both offsets are 0, and the image returned is 2 by 3: narrower than the target.
\<close>

theorem thumbnail_image_narrower_than_target:
  "thumbnail_image (47, 47) (3, 3) = Inr (2, 3)"
  by code_simp

end
